theory Spec2Isabelle
  imports Complex_Main
begin

section \<open>The Krylov solver entry points of the jax backend and their two caches\<close>

text \<open>
  The development embeds \<^verbatim>\<open>JaxBackend.eigs\<close>, \<^verbatim>\<open>JaxBackend.eigsh_lanczos\<close> and
  \<^verbatim>\<open>JaxBackend.gmres\<close> of \<^verbatim>\<open>tensornetwork/backends/jax/jax_backend.py\<close> together with
  the module dictionaries \<^verbatim>\<open>_CACHED_MATVECS\<close> and \<^verbatim>\<open>_CACHED_FUNCTIONS\<close>. Each entry
  point checks its arguments, registers the operator and the iteration routine in the
  dictionaries, and hands over to a routine of \<^verbatim>\<open>jitted_functions\<close>.
\<close>

subsection \<open>Arrays and Python values\<close>

datatype dtype = Float32 | Float64 | Complex64 | Complex128

text \<open>
  A jax array as far as the entry points look at it: \<^verbatim>\<open>.shape\<close>, \<^verbatim>\<open>.dtype\<close>, and the
  entries, which the entry points never inspect. \<^verbatim>\<open>.size\<close> is the product of the shape.
\<close>

record 'd ndarray =
  shape_of :: "nat list"
  dtype_of :: dtype
  data_of :: 'd

definition size_of :: "'d ndarray \<Rightarrow> int" where
  "size_of a = int (prod_list (shape_of a))"

text \<open>
  A value passed where a \<^verbatim>\<open>Tensor\<close> (\<^verbatim>\<open>Any\<close>) is expected: an instance of
  \<^verbatim>\<open>jnp.ndarray\<close>, or anything else (a numpy array, a list, ...).
\<close>

datatype 'd pyobject = Jnp_ndarray "'d ndarray" | Other

subsection \<open>Operators, routines, errors\<close>

text \<open>
  Operators are Python callables. \<^verbatim>\<open>_CACHED_MATVECS\<close> is a dictionary keyed by the
  callable itself, and a dictionary compares keys with \<^verbatim>\<open>__hash__\<close> and \<^verbatim>\<open>__eq__\<close>. A
  function object (\<^verbatim>\<open>def\<close>, \<^verbatim>\<open>lambda\<close>) is equal to itself only. A bound method object is
  made anew by every attribute access \<^verbatim>\<open>obj.f\<close> and is equal to every bound method of the
  same instance and the same function; any other callable whose class defines no
  \<^verbatim>\<open>__eq__\<close> behaves as a function object. \<open>Function i\<close> is the function object with identity
  (\<^verbatim>\<open>id\<close>) \<open>i\<close>; \<open>Bound_method i obj f\<close> is the bound method object with identity \<open>i\<close>, of
  the instance with identity \<open>obj\<close> and the function with identity \<open>f\<close>.
\<close>

datatype callable = Function nat | Bound_method nat nat nat


text \<open>
  The class of a callable under \<^verbatim>\<open>__hash__\<close>/\<^verbatim>\<open>__eq__\<close>: two callables are the same
  dictionary key exactly when their \<open>dict_key\<close> is the same.
\<close>

datatype key = Function_key nat | Method_key nat nat

fun dict_key :: "callable \<Rightarrow> key" where
  "dict_key (Function i) = Function_key i"
| "dict_key (Bound_method i obj f) = Method_key obj f"

text \<open>
  The value kept for an operator \<open>A\<close> is \<^verbatim>\<open>libjax.tree_util.Partial(A)\<close>
  (\<open>eigsh_lanczos\<close>, \<open>gmres\<close>) or \<^verbatim>\<open>libjax.tree_util.Partial(libjax.jit(A))\<close> (\<open>eigs\<close>).
\<close>

datatype matvec = Partial callable | Partial_jit callable

text \<open>
  What a call does to the outside, in order: it wraps an operator, it asks a factory of
  \<^verbatim>\<open>jitted_functions\<close> for an iteration routine, it invokes the routine stored under a
  name on a wrapped operator. The operator itself is applied only inside a routine.
  The source keeps no such record; the list \<open>events\<close> below is the instrumentation a
  compilation counter provides.
\<close>

datatype event = Wrap callable | Build string | Run string matvec

text \<open>The raise statements of the three entry points, one constructor for each.\<close>

datatype check =
    Which_not_supported
  | Numeig_exceeds_krylov
  | Shape_and_dtype_required
  | Expected_jax_array
  | Reorthogonalize_required
  | X0_shape_mismatch
  | X0_dtype_mismatch
  | Krylov_out_of_range
  | Tol_negative
  | Atol_negative
  | M_not_supported
  | A_kwargs_not_supported

text \<open>
  The class of an exception that escapes from an iteration routine, and the errors of a
  call: \<open>ValueError\<close>, \<open>TypeError\<close> and \<open>NotImplementedError\<close> are raised by the raise
  statement the \<open>check\<close> names, \<open>KeyError\<close> by a failed dictionary lookup, and
  \<open>Propagated\<close> is an exception of the given class that the routine raised and the entry
  point lets through.
\<close>

datatype exception_class =
    Class_ValueError
  | Class_TypeError
  | Class_NotImplementedError
  | Class_other

datatype error =
    ValueError check
  | TypeError check
  | NotImplementedError check
  | KeyError
  | Propagated exception_class


text \<open>
  The process-wide state: \<^verbatim>\<open>_CACHED_MATVECS\<close>, \<^verbatim>\<open>_CACHED_FUNCTIONS\<close>, and the
  instrumentation.
\<close>

record 'c caches =
  cached_matvecs :: "key \<rightharpoonup> matvec"
  cached_functions :: "string \<rightharpoonup> 'c"
  events :: "event list"

definition empty_caches :: "'c caches" where
  "empty_caches = \<lparr>cached_matvecs = Map.empty, cached_functions = Map.empty, events = []\<rparr>"

text \<open>
  The module \<^verbatim>\<open>jitted_functions\<close> and the random generator are not among the sources:
  they are parameters. \<open>'c\<close> is the type of routine objects, the three factories give
  one each, and \<open>call_arnoldi\<close>, \<open>call_lanczos\<close>, \<open>call_gmres\<close> say what calling a routine
  object with the arguments of the respective entry point does: it returns a result, or
  it raises an exception of some class.
\<close>

record ('d, 'c, 'r, 'u) externals =
  implicitly_restarted_arnoldi :: 'c
  generate_jitted_eigsh_lanczos :: 'c
  gmres_wrapper :: 'c
  call_arnoldi :: "'c \<Rightarrow> matvec \<Rightarrow> 'd pyobject list \<Rightarrow> 'd ndarray \<Rightarrow> int \<Rightarrow> int \<Rightarrow>
    string \<Rightarrow> real \<Rightarrow> int \<Rightarrow> exception_class + 'r"
  call_lanczos :: "'c \<Rightarrow> matvec \<Rightarrow> 'd pyobject list \<Rightarrow> 'd ndarray \<Rightarrow> int \<Rightarrow> int \<Rightarrow>
    real \<Rightarrow> bool option \<Rightarrow> exception_class + 'r"
  call_gmres :: "'c \<Rightarrow> matvec \<Rightarrow> 'd pyobject list \<Rightarrow> 'd ndarray \<Rightarrow> 'd ndarray \<Rightarrow> real \<Rightarrow>
    real \<Rightarrow> int \<Rightarrow> int option \<Rightarrow> exception_class + 'd ndarray \<times> 'u \<times> int \<times> bool"
  random_normal :: "nat list \<Rightarrow> dtype \<Rightarrow> 'd"
  zero_entries :: "nat list \<Rightarrow> dtype \<Rightarrow> 'd"


text \<open>
  Modelled from the spec: \<^verbatim>\<open>jitted_functions.gmres_wrapper\<close>, which makes the routine
  \<open>gmres\<close> hands over to, is not among the sources. Of what the routine returns the
  spec says that the number of restarts it consumed is nonzero when it did not converge
  (a nonzero status signals non-convergence).
\<close>

definition counts_restarts :: "'d ndarray \<times> 'u \<times> int \<times> bool \<Rightarrow> bool" where
  "counts_restarts out \<longleftrightarrow> (case out of (x, u, n_iter, converged) \<Rightarrow> converged \<or> n_iter \<noteq> 0)"

subsection \<open>Tensor creation used by the entry points\<close>

text \<open>
  \<^verbatim>\<open>JaxBackend.randn(shape, dtype)\<close> with a dtype given returns a jax array of that shape
  and dtype in each of its branches; \<^verbatim>\<open>JaxBackend.zeros(shape, dtype)\<close> is
  \<^verbatim>\<open>jnp.zeros(shape, dtype=dtype)\<close>.
\<close>

definition randn :: "('d, 'c, 'r, 'u) externals \<Rightarrow> nat list \<Rightarrow> dtype \<Rightarrow> 'd pyobject" where
  "randn ext shape dtype =
     Jnp_ndarray \<lparr>shape_of = shape, dtype_of = dtype, data_of = random_normal ext shape dtype\<rparr>"

definition zeros :: "('d, 'c, 'r, 'u) externals \<Rightarrow> nat list \<Rightarrow> dtype \<Rightarrow> 'd ndarray" where
  "zeros ext shape dtype =
     \<lparr>shape_of = shape, dtype_of = dtype, data_of = zero_entries ext shape dtype\<rparr>"

text \<open>Truth value of an \<^verbatim>\<open>Optional[bool]\<close>: \<^verbatim>\<open>None\<close> and \<^verbatim>\<open>False\<close> are false.\<close>

fun truthy :: "bool option \<Rightarrow> bool" where
  "truthy None = False"
| "truthy (Some b) = b"

subsection \<open>\<open>eigs\<close>\<close>

text \<open>
  \<^verbatim>\<open>JaxBackend.eigs\<close>, lines 312 to 336 of the source: the default for \<open>args\<close>, the
  checks in the order of the source, the two stores guarded by \<^verbatim>\<open>not in\<close>, and the call
  of the stored routine on the stored operator. A failed dictionary lookup is a
  \<open>KeyError\<close>; it cannot happen after the stores.
\<close>

definition eigs ::
  "('d, 'c, 'r, 'u) externals \<Rightarrow> callable \<Rightarrow> 'd pyobject list option \<Rightarrow> 'd pyobject option \<Rightarrow>
   nat list option \<Rightarrow> dtype option \<Rightarrow> int \<Rightarrow> int \<Rightarrow> real \<Rightarrow> string \<Rightarrow> int \<Rightarrow>
   'c caches \<Rightarrow> (error + 'r) \<times> 'c caches" where
  "eigs ext A args initial_state shape dtype num_krylov_vecs numeig tol which maxiter s =
    (let args = (case args of None \<Rightarrow> [] | Some a \<Rightarrow> a) in
     if which \<in> set [''SI'', ''LI'', ''SM'', ''SR''] then
       (Inl (ValueError Which_not_supported), s)
     else if numeig > num_krylov_vecs then
       (Inl (ValueError Numeig_exceeds_krylov), s)
     else
       case (case initial_state of
               None \<Rightarrow>
                 (case (shape, dtype) of
                    (Some sh, Some dt) \<Rightarrow> Inr (randn ext sh dt)
                  | _ \<Rightarrow> Inl (ValueError Shape_and_dtype_required))
             | Some v \<Rightarrow> Inr v) of
         Inl e \<Rightarrow> (Inl e, s)
       | Inr Other \<Rightarrow> (Inl (TypeError Expected_jax_array), s)
       | Inr (Jnp_ndarray initial_state) \<Rightarrow>
           (let s = (if cached_matvecs s (dict_key A) = None
                     then s\<lparr>cached_matvecs := (cached_matvecs s)(dict_key A \<mapsto> Partial_jit A),
                            events := events s @ [Wrap A]\<rparr>
                     else s);
                s = (if cached_functions s ''imp_arnoldi'' = None
                     then s\<lparr>cached_functions :=
                              (cached_functions s)(''imp_arnoldi'' \<mapsto> implicitly_restarted_arnoldi ext),
                            events := events s @ [Build ''imp_arnoldi'']\<rparr>
                     else s)
            in case cached_functions s ''imp_arnoldi'' of
                 None \<Rightarrow> (Inl KeyError, s)
               | Some imp_arnoldi \<Rightarrow>
                   (case cached_matvecs s (dict_key A) of
                      None \<Rightarrow> (Inl KeyError, s)
                    | Some mv \<Rightarrow>
                        ((case call_arnoldi ext imp_arnoldi mv args initial_state
                                  num_krylov_vecs numeig which tol maxiter of
                            Inl x \<Rightarrow> Inl (Propagated x)
                          | Inr r \<Rightarrow> Inr r),
                         s\<lparr>events := events s @ [Run ''imp_arnoldi'' mv]\<rparr>))))"

subsection \<open>\<open>eigsh_lanczos\<close>\<close>

text \<open>
  \<^verbatim>\<open>JaxBackend.eigsh_lanczos\<close>, lines 419 to 444. The operator is wrapped without
  \<^verbatim>\<open>jit\<close>; \<open>tol\<close> and \<open>ndiag\<close> are accepted and not passed on.
\<close>

definition eigsh_lanczos ::
  "('d, 'c, 'r, 'u) externals \<Rightarrow> callable \<Rightarrow> 'd pyobject list option \<Rightarrow> 'd pyobject option \<Rightarrow>
   nat list option \<Rightarrow> dtype option \<Rightarrow> int \<Rightarrow> int \<Rightarrow> real \<Rightarrow> real \<Rightarrow> int \<Rightarrow> bool option \<Rightarrow>
   'c caches \<Rightarrow> (error + 'r) \<times> 'c caches" where
  "eigsh_lanczos ext A args initial_state shape dtype num_krylov_vecs numeig tol delta ndiag
      reorthogonalize s =
    (let args = (case args of None \<Rightarrow> [] | Some a \<Rightarrow> a) in
     if num_krylov_vecs < numeig then
       (Inl (ValueError Numeig_exceeds_krylov), s)
     else if numeig > 1 \<and> \<not> truthy reorthogonalize then
       (Inl (ValueError Reorthogonalize_required), s)
     else
       case (case initial_state of
               None \<Rightarrow>
                 (case (shape, dtype) of
                    (Some sh, Some dt) \<Rightarrow> Inr (randn ext sh dt)
                  | _ \<Rightarrow> Inl (ValueError Shape_and_dtype_required))
             | Some v \<Rightarrow> Inr v) of
         Inl e \<Rightarrow> (Inl e, s)
       | Inr Other \<Rightarrow> (Inl (TypeError Expected_jax_array), s)
       | Inr (Jnp_ndarray initial_state) \<Rightarrow>
           (let s = (if cached_matvecs s (dict_key A) = None
                     then s\<lparr>cached_matvecs := (cached_matvecs s)(dict_key A \<mapsto> Partial A),
                            events := events s @ [Wrap A]\<rparr>
                     else s);
                s = (if cached_functions s ''eigsh_lanczos'' = None
                     then s\<lparr>cached_functions :=
                              (cached_functions s)(''eigsh_lanczos'' \<mapsto> generate_jitted_eigsh_lanczos ext),
                            events := events s @ [Build ''eigsh_lanczos'']\<rparr>
                     else s)
            in case cached_functions s ''eigsh_lanczos'' of
                 None \<Rightarrow> (Inl KeyError, s)
               | Some lanczos \<Rightarrow>
                   (case cached_matvecs s (dict_key A) of
                      None \<Rightarrow> (Inl KeyError, s)
                    | Some mv \<Rightarrow>
                        ((case call_lanczos ext lanczos mv args initial_state
                                  num_krylov_vecs numeig delta reorthogonalize of
                            Inl x \<Rightarrow> Inl (Propagated x)
                          | Inr r \<Rightarrow> Inr r),
                         s\<lparr>events := events s @ [Run ''eigsh_lanczos'' mv]\<rparr>))))"

subsection \<open>\<open>gmres\<close>\<close>

text \<open>
  \<^verbatim>\<open>JaxBackend.gmres\<close>, lines 550 to 594. The routine returns the solution, a second
  value that is dropped, the restart count and whether it converged.
\<close>

definition gmres ::
  "('d, 'c, 'r, 'u) externals \<Rightarrow> callable \<Rightarrow> 'd ndarray \<Rightarrow> 'd pyobject list option \<Rightarrow>
   (string \<rightharpoonup> 'd pyobject) option \<Rightarrow> 'd ndarray option \<Rightarrow> real \<Rightarrow> real option \<Rightarrow>
   int option \<Rightarrow> int option \<Rightarrow> callable option \<Rightarrow>
   'c caches \<Rightarrow> (error + 'd ndarray \<times> int) \<times> 'c caches" where
  "gmres ext A_mv b A_args A_kwargs x0 tol atol num_krylov_vectors maxiter M s =
    (if (case x0 of None \<Rightarrow> False | Some x \<Rightarrow> shape_of x \<noteq> shape_of b) then
       (Inl (ValueError X0_shape_mismatch), s)
     else if (case x0 of None \<Rightarrow> False | Some x \<Rightarrow> dtype_of x \<noteq> dtype_of b) then
       (Inl (ValueError X0_dtype_mismatch), s)
     else
       let num_krylov_vectors =
             (case num_krylov_vectors of None \<Rightarrow> size_of b | Some n \<Rightarrow> n) in
       if num_krylov_vectors \<le> 0 \<or> num_krylov_vectors > size_of b then
         (Inl (ValueError Krylov_out_of_range), s)
       else if tol < 0 then
         (Inl (ValueError Tol_negative), s)
       else
         let atol = (case atol of None \<Rightarrow> tol | Some a \<Rightarrow> a) in
         if atol < 0 then
           (Inl (ValueError Atol_negative), s)
         else if M \<noteq> None then
           (Inl (NotImplementedError M_not_supported), s)
         else if A_kwargs \<noteq> None then
           (Inl (NotImplementedError A_kwargs_not_supported), s)
         else
           let A_args = (case A_args of None \<Rightarrow> [] | Some a \<Rightarrow> a);
               x0 = (case x0 of None \<Rightarrow> zeros ext (shape_of b) (dtype_of b) | Some x \<Rightarrow> x);
               s = (if cached_matvecs s (dict_key A_mv) = None
                    then s\<lparr>cached_matvecs := (cached_matvecs s)(dict_key A_mv \<mapsto> Partial A_mv),
                           events := events s @ [Wrap A_mv]\<rparr>
                    else s);
               s = (if cached_functions s ''gmres_f'' = None
                    then s\<lparr>cached_functions :=
                             (cached_functions s)(''gmres_f'' \<mapsto> gmres_wrapper ext),
                           events := events s @ [Build ''gmres_f'']\<rparr>
                    else s)
           in case cached_functions s ''gmres_f'' of
                None \<Rightarrow> (Inl KeyError, s)
              | Some gmres_f \<Rightarrow>
                  (case cached_matvecs s (dict_key A_mv) of
                     None \<Rightarrow> (Inl KeyError, s)
                   | Some mv \<Rightarrow>
                       ((case call_gmres ext gmres_f mv A_args b x0 tol atol num_krylov_vectors
                                 maxiter of
                           Inl x \<Rightarrow> Inl (Propagated x)
                         | Inr (x, u, n_iter, converged) \<Rightarrow>
                             Inr (x, if converged then 0 else n_iter)),
                        s\<lparr>events := events s @ [Run ''gmres_f'' mv]\<rparr>)))"

subsection \<open>A process calling the entry points\<close>

text \<open>
  A call of one of the three entry points with its arguments in the order of the Python
  signature, and what the two kinds of solver return.
\<close>

datatype 'd request =
    Eigs callable "'d pyobject list option" "'d pyobject option" "nat list option" "dtype option"
      int int real string int
  | Eigsh_lanczos callable "'d pyobject list option" "'d pyobject option" "nat list option"
      "dtype option" int int real real int "bool option"
  | Gmres callable "'d ndarray" "'d pyobject list option" "(string \<rightharpoonup> 'd pyobject) option"
      "'d ndarray option" real "real option" "int option" "int option" "callable option"

datatype ('r, 'd) answer = Eigenpairs 'r | Solution "'d ndarray" int

fun call ::
  "('d, 'c, 'r, 'u) externals \<Rightarrow> 'd request \<Rightarrow> 'c caches \<Rightarrow>
   (error + ('r, 'd) answer) \<times> 'c caches" where
  "call ext (Eigs A args initial_state shape dtype num_krylov_vecs numeig tol which maxiter) s =
     (case eigs ext A args initial_state shape dtype num_krylov_vecs numeig tol which maxiter s of
        (Inl e, s') \<Rightarrow> (Inl e, s')
      | (Inr r, s') \<Rightarrow> (Inr (Eigenpairs r), s'))"
| "call ext (Eigsh_lanczos A args initial_state shape dtype num_krylov_vecs numeig tol delta
      ndiag reorthogonalize) s =
     (case eigsh_lanczos ext A args initial_state shape dtype num_krylov_vecs numeig tol delta
             ndiag reorthogonalize s of
        (Inl e, s') \<Rightarrow> (Inl e, s')
      | (Inr r, s') \<Rightarrow> (Inr (Eigenpairs r), s'))"
| "call ext (Gmres A_mv b A_args A_kwargs x0 tol atol num_krylov_vectors maxiter M) s =
     (case gmres ext A_mv b A_args A_kwargs x0 tol atol num_krylov_vectors maxiter M s of
        (Inl e, s') \<Rightarrow> (Inl e, s')
      | (Inr (x, info), s') \<Rightarrow> (Inr (Solution x info), s'))"

text \<open>
  The process goes on after a call that raised (the caller caught the exception), with
  the caches as that call left them.
\<close>

fun process ::
  "('d, 'c, 'r, 'u) externals \<Rightarrow> 'd request list \<Rightarrow> 'c caches \<Rightarrow> 'c caches" where
  "process ext [] s = s"
| "process ext (q # qs) s = process ext qs (snd (call ext q s))"

text \<open>
  Of a call: the operator it is about, the wrapped form its entry point stores for an
  operator that is new, the name its entry point uses in \<^verbatim>\<open>_CACHED_FUNCTIONS\<close>, and the
  factory result it stores there.
\<close>

fun operator :: "'d request \<Rightarrow> callable" where
  "operator (Eigs A _ _ _ _ _ _ _ _ _) = A"
| "operator (Eigsh_lanczos A _ _ _ _ _ _ _ _ _ _) = A"
| "operator (Gmres A_mv _ _ _ _ _ _ _ _ _) = A_mv"

fun wrapped :: "'d request \<Rightarrow> matvec" where
  "wrapped (Eigs A _ _ _ _ _ _ _ _ _) = Partial_jit A"
| "wrapped (Eigsh_lanczos A _ _ _ _ _ _ _ _ _ _) = Partial A"
| "wrapped (Gmres A_mv _ _ _ _ _ _ _ _ _) = Partial A_mv"

fun algorithm :: "'d request \<Rightarrow> string" where
  "algorithm (Eigs _ _ _ _ _ _ _ _ _ _) = ''imp_arnoldi''"
| "algorithm (Eigsh_lanczos _ _ _ _ _ _ _ _ _ _ _) = ''eigsh_lanczos''"
| "algorithm (Gmres _ _ _ _ _ _ _ _ _ _) = ''gmres_f''"

fun routine :: "('d, 'c, 'r, 'u) externals \<Rightarrow> 'd request \<Rightarrow> 'c" where
  "routine ext (Eigs _ _ _ _ _ _ _ _ _ _) = implicitly_restarted_arnoldi ext"
| "routine ext (Eigsh_lanczos _ _ _ _ _ _ _ _ _ _ _) = generate_jitted_eigsh_lanczos ext"
| "routine ext (Gmres _ _ _ _ _ _ _ _ _ _) = gmres_wrapper ext"

text \<open>
  The checks of \<open>gmres\<close> on \<open>x0\<close>, \<open>num_krylov_vectors\<close>, \<open>tol\<close> and \<open>atol\<close>, which come
  before it looks at \<open>M\<close> and \<open>A_kwargs\<close>: all of them pass.
\<close>

definition gmres_values_ok ::
  "'d ndarray \<Rightarrow> 'd ndarray option \<Rightarrow> real \<Rightarrow> real option \<Rightarrow> int option \<Rightarrow> bool" where
  "gmres_values_ok b x0 tol atol num_krylov_vectors \<longleftrightarrow>
     (case x0 of None \<Rightarrow> True | Some x \<Rightarrow> shape_of x = shape_of b \<and> dtype_of x = dtype_of b) \<and>
     (let n = (case num_krylov_vectors of None \<Rightarrow> size_of b | Some n \<Rightarrow> n)
      in 0 < n \<and> n \<le> size_of b) \<and>
     0 \<le> tol \<and>
     (case atol of None \<Rightarrow> True | Some a \<Rightarrow> 0 \<le> a)"

text \<open>
  The initial state is given and is a jax array, or it is not given and both \<open>shape\<close> and
  \<open>dtype\<close> are: the two checks that \<open>eigs\<close> and \<open>eigsh_lanczos\<close> make on it pass.
\<close>

definition initial_state_ok ::
  "'d pyobject option \<Rightarrow> nat list option \<Rightarrow> dtype option \<Rightarrow> bool" where
  "initial_state_ok initial_state shape dtype \<longleftrightarrow>
     (case initial_state of
        None \<Rightarrow> shape \<noteq> None \<and> dtype \<noteq> None
      | Some Other \<Rightarrow> False
      | Some (Jnp_ndarray v) \<Rightarrow> True)"

text \<open>A call passes every check of its entry point: none of its raise statements is reached.\<close>

fun passes :: "'d request \<Rightarrow> bool" where
  "passes (Eigs A args initial_state shape dtype num_krylov_vecs numeig tol which maxiter) \<longleftrightarrow>
     which \<notin> set [''SI'', ''LI'', ''SM'', ''SR''] \<and> numeig \<le> num_krylov_vecs \<and>
     initial_state_ok initial_state shape dtype"
| "passes (Eigsh_lanczos A args initial_state shape dtype num_krylov_vecs numeig tol delta ndiag
      reorthogonalize) \<longleftrightarrow>
     numeig \<le> num_krylov_vecs \<and> (numeig \<le> 1 \<or> truthy reorthogonalize) \<and>
     initial_state_ok initial_state shape dtype"
| "passes (Gmres A_mv b A_args A_kwargs x0 tol atol num_krylov_vectors maxiter M) \<longleftrightarrow>
     gmres_values_ok b x0 tol atol num_krylov_vectors \<and> M = None \<and> A_kwargs = None"

text \<open>
  The state after a call that passed every check of its entry point, written in one
  piece: the operator \<open>A\<close> is stored as \<open>w\<close> unless its key has an entry, the routine \<open>c\<close>
  is stored under \<open>name\<close> unless that name has an entry, and the stored routine is invoked
  on the stored operator.
\<close>

definition registered :: "callable \<Rightarrow> matvec \<Rightarrow> string \<Rightarrow> 'c \<Rightarrow> 'c caches \<Rightarrow> 'c caches" where
  "registered A w name c s =
     \<lparr>cached_matvecs =
        (case cached_matvecs s (dict_key A) of
           None \<Rightarrow> (cached_matvecs s)(dict_key A \<mapsto> w)
         | Some _ \<Rightarrow> cached_matvecs s),
      cached_functions =
        (case cached_functions s name of
           None \<Rightarrow> (cached_functions s)(name \<mapsto> c)
         | Some _ \<Rightarrow> cached_functions s),
      events =
        events s @ (if cached_matvecs s (dict_key A) = None then [Wrap A] else [])
          @ (if cached_functions s name = None then [Build name] else [])
          @ [Run name (case cached_matvecs s (dict_key A) of None \<Rightarrow> w | Some m \<Rightarrow> m)]\<rparr>"




subsection \<open>Stand-ins for evaluation\<close>

text \<open>
  Routines that do no numerical work, for evaluating the entry points on concrete calls:
  the eigensolvers return the name of the routine object they were given, and the linear
  solver returns its initial guess after one restart and reports convergence for a
  tolerance of 1 or more. Arrays carry no entries. In \<open>failing\<close> the Arnoldi routine
  raises an exception that is neither a \<^verbatim>\<open>ValueError\<close> nor a \<^verbatim>\<open>TypeError\<close>.
\<close>

definition stub :: "(unit, string, string, unit) externals" where
  "stub =
     \<lparr>implicitly_restarted_arnoldi = ''arnoldi'',
      generate_jitted_eigsh_lanczos = ''lanczos'',
      gmres_wrapper = ''gmres'',
      call_arnoldi = (\<lambda>c mv args v num_krylov_vecs numeig which tol maxiter. Inr c),
      call_lanczos = (\<lambda>c mv args v num_krylov_vecs numeig delta reorthogonalize. Inr c),
      call_gmres = (\<lambda>c mv args b x0 tol atol num_krylov_vectors maxiter.
        Inr (x0, (), 1, 1 \<le> tol)),
      random_normal = (\<lambda>shape dtype. ()),
      zero_entries = (\<lambda>shape dtype. ())\<rparr>"


definition vec :: "nat \<Rightarrow> unit ndarray" where
  "vec n = \<lparr>shape_of = [n], dtype_of = Float64, data_of = ()\<rparr>"

text \<open>
  The caches of a process that has solved one linear system with the function 1 as
  operator; calls of the three entry points on a vector of size 4 with every argument
  but the operator (and, for \<open>eigs\<close>, \<open>which\<close> and the initial state) at its default.
\<close>

definition warm :: "string caches" where
  "warm =
     \<lparr>cached_matvecs = [Function_key 1 \<mapsto> Partial (Function 1)],
      cached_functions = [''gmres_f'' \<mapsto> ''gmres''],
      events = [Wrap (Function 1), Build ''gmres_f'', Run ''gmres_f'' (Partial (Function 1))]\<rparr>"

definition eigs_call :: "callable \<Rightarrow> string \<Rightarrow> unit pyobject \<Rightarrow> unit request" where
  "eigs_call A which v = Eigs A None (Some v) None None 50 6 (1 / 10 ^ 8) which 20"



section \<open>What a call does to the caches\<close>

lemma vec_simps [simp]:
  "shape_of (vec n) = [n]" "dtype_of (vec n) = Float64" "size_of (vec n) = int n"
  by (simp_all add: vec_def size_of_def)

text \<open>
  The last part of each entry point: the two conditional stores, the two lookups and the
  invocation. The lookups never fail, and the state is \<open>registered\<close>, whether the routine
  returns or raises.
\<close>

lemma register_and_run:
  "(let s = (if cached_matvecs s (dict_key A) = None
             then s\<lparr>cached_matvecs := (cached_matvecs s)(dict_key A \<mapsto> w),
                    events := events s @ [Wrap A]\<rparr>
             else s);
        s = (if cached_functions s name = None
             then s\<lparr>cached_functions := (cached_functions s)(name \<mapsto> c),
                    events := events s @ [Build name]\<rparr>
             else s)
    in case cached_functions s name of
         None \<Rightarrow> (Inl KeyError, s)
       | Some f \<Rightarrow>
           (case cached_matvecs s (dict_key A) of
              None \<Rightarrow> (Inl KeyError, s)
            | Some mv \<Rightarrow> (G f mv, s\<lparr>events := events s @ [Run name mv]\<rparr>))) =
   (G (case cached_functions s name of None \<Rightarrow> c | Some f \<Rightarrow> f)
      (case cached_matvecs s (dict_key A) of None \<Rightarrow> w | Some m \<Rightarrow> m),
    registered A w name c s)"
  by (cases "cached_matvecs s (dict_key A)"; cases "cached_functions s name")
     (simp_all add: registered_def)

text \<open>What the routine does is never an error of the entry point's own raise statements.\<close>

lemma routine_outcome [simp]:
  "(case p of Inl x \<Rightarrow> Inl (Propagated x) | Inr r \<Rightarrow> Inr (f r)) \<noteq> Inl (ValueError c)"
  "(case p of Inl x \<Rightarrow> Inl (Propagated x) | Inr r \<Rightarrow> Inr (f r)) \<noteq> Inl (TypeError c)"
  "(case p of Inl x \<Rightarrow> Inl (Propagated x) | Inr r \<Rightarrow> Inr (f r)) \<noteq> Inl (NotImplementedError c)"
  "(case p of Inl x \<Rightarrow> Inl (Propagated x) | Inr r \<Rightarrow> Inr (f r)) \<noteq> Inl KeyError"
  "(case q of Inl x \<Rightarrow> Inl (Propagated x)
    | Inr (x, u, n_iter, converged) \<Rightarrow> Inr (g x u n_iter converged)) \<noteq> Inl (ValueError c)"
  "(case q of Inl x \<Rightarrow> Inl (Propagated x)
    | Inr (x, u, n_iter, converged) \<Rightarrow> Inr (g x u n_iter converged)) \<noteq> Inl (TypeError c)"
  "(case q of Inl x \<Rightarrow> Inl (Propagated x)
    | Inr (x, u, n_iter, converged) \<Rightarrow> Inr (g x u n_iter converged)) \<noteq>
     Inl (NotImplementedError c)"
  "(case q of Inl x \<Rightarrow> Inl (Propagated x)
    | Inr (x, u, n_iter, converged) \<Rightarrow> Inr (g x u n_iter converged)) \<noteq> Inl KeyError"
  by (simp_all split: sum.splits prod.splits)

text \<open>Each entry point as a chain of its checks followed by the invocation of the routine.\<close>

lemma eigs_flat:
  "eigs ext A args initial_state shape dtype num_krylov_vecs numeig tol which maxiter s =
    (if which \<in> set [''SI'', ''LI'', ''SM'', ''SR''] then (Inl (ValueError Which_not_supported), s)
     else if num_krylov_vecs < numeig then (Inl (ValueError Numeig_exceeds_krylov), s)
     else case (case initial_state of
                  None \<Rightarrow>
                    (case (shape, dtype) of
                       (Some sh, Some dt) \<Rightarrow> Inr (randn ext sh dt)
                     | _ \<Rightarrow> Inl (ValueError Shape_and_dtype_required))
                | Some v \<Rightarrow> Inr v) of
            Inl e \<Rightarrow> (Inl e, s)
          | Inr Other \<Rightarrow> (Inl (TypeError Expected_jax_array), s)
          | Inr (Jnp_ndarray v) \<Rightarrow>
              ((case call_arnoldi ext
                      (case cached_functions s ''imp_arnoldi'' of
                         None \<Rightarrow> implicitly_restarted_arnoldi ext | Some f \<Rightarrow> f)
                      (case cached_matvecs s (dict_key A) of
                         None \<Rightarrow> Partial_jit A | Some m \<Rightarrow> m)
                      (case args of None \<Rightarrow> [] | Some a \<Rightarrow> a) v num_krylov_vecs numeig which tol
                      maxiter of
                  Inl x \<Rightarrow> Inl (Propagated x)
                | Inr r \<Rightarrow> Inr r),
               registered A (Partial_jit A) ''imp_arnoldi'' (implicitly_restarted_arnoldi ext) s))"
  unfolding eigs_def register_and_run by (simp only: Let_def)

lemma eigsh_lanczos_flat:
  "eigsh_lanczos ext A args initial_state shape dtype num_krylov_vecs numeig tol delta ndiag
      reorthogonalize s =
    (if num_krylov_vecs < numeig then (Inl (ValueError Numeig_exceeds_krylov), s)
     else if 1 < numeig \<and> \<not> truthy reorthogonalize then
       (Inl (ValueError Reorthogonalize_required), s)
     else case (case initial_state of
                  None \<Rightarrow>
                    (case (shape, dtype) of
                       (Some sh, Some dt) \<Rightarrow> Inr (randn ext sh dt)
                     | _ \<Rightarrow> Inl (ValueError Shape_and_dtype_required))
                | Some v \<Rightarrow> Inr v) of
            Inl e \<Rightarrow> (Inl e, s)
          | Inr Other \<Rightarrow> (Inl (TypeError Expected_jax_array), s)
          | Inr (Jnp_ndarray v) \<Rightarrow>
              ((case call_lanczos ext
                      (case cached_functions s ''eigsh_lanczos'' of
                         None \<Rightarrow> generate_jitted_eigsh_lanczos ext | Some f \<Rightarrow> f)
                      (case cached_matvecs s (dict_key A) of None \<Rightarrow> Partial A | Some m \<Rightarrow> m)
                      (case args of None \<Rightarrow> [] | Some a \<Rightarrow> a) v num_krylov_vecs numeig delta
                      reorthogonalize of
                  Inl x \<Rightarrow> Inl (Propagated x)
                | Inr r \<Rightarrow> Inr r),
               registered A (Partial A) ''eigsh_lanczos'' (generate_jitted_eigsh_lanczos ext) s))"
  unfolding eigsh_lanczos_def register_and_run by (simp only: Let_def)

lemma gmres_flat:
  "gmres ext A_mv b A_args A_kwargs x0 tol atol num_krylov_vectors maxiter M s =
    (if (case x0 of None \<Rightarrow> False | Some x \<Rightarrow> shape_of x \<noteq> shape_of b) then
       (Inl (ValueError X0_shape_mismatch), s)
     else if (case x0 of None \<Rightarrow> False | Some x \<Rightarrow> dtype_of x \<noteq> dtype_of b) then
       (Inl (ValueError X0_dtype_mismatch), s)
     else if (case num_krylov_vectors of None \<Rightarrow> size_of b | Some n \<Rightarrow> n) \<le> 0 \<or>
             size_of b < (case num_krylov_vectors of None \<Rightarrow> size_of b | Some n \<Rightarrow> n) then
       (Inl (ValueError Krylov_out_of_range), s)
     else if tol < 0 then (Inl (ValueError Tol_negative), s)
     else if (case atol of None \<Rightarrow> tol | Some a \<Rightarrow> a) < 0 then
       (Inl (ValueError Atol_negative), s)
     else if M \<noteq> None then (Inl (NotImplementedError M_not_supported), s)
     else if A_kwargs \<noteq> None then (Inl (NotImplementedError A_kwargs_not_supported), s)
     else
       ((case call_gmres ext
               (case cached_functions s ''gmres_f'' of
                  None \<Rightarrow> gmres_wrapper ext | Some f \<Rightarrow> f)
               (case cached_matvecs s (dict_key A_mv) of None \<Rightarrow> Partial A_mv | Some m \<Rightarrow> m)
               (case A_args of None \<Rightarrow> [] | Some a \<Rightarrow> a) b
               (case x0 of None \<Rightarrow> zeros ext (shape_of b) (dtype_of b) | Some x \<Rightarrow> x)
               tol (case atol of None \<Rightarrow> tol | Some a \<Rightarrow> a)
               (case num_krylov_vectors of None \<Rightarrow> size_of b | Some n \<Rightarrow> n) maxiter of
           Inl x \<Rightarrow> Inl (Propagated x)
         | Inr (x, u, n_iter, converged) \<Rightarrow> Inr (x, if converged then 0 else n_iter)),
        registered A_mv (Partial A_mv) ''gmres_f'' (gmres_wrapper ext) s))"
  unfolding gmres_def register_and_run by (simp only: Let_def)

text \<open>
  The state after a call, the error of a call that does not pass its checks, and the
  error of a call that passes them.
\<close>

lemma eigs_state:
  "snd (eigs ext A args initial_state shape dtype num_krylov_vecs numeig tol which maxiter s) =
   (if passes (Eigs A args initial_state shape dtype num_krylov_vecs numeig tol which maxiter)
    then registered A (Partial_jit A) ''imp_arnoldi'' (implicitly_restarted_arnoldi ext) s
    else s)"
  by (auto simp: eigs_flat initial_state_ok_def randn_def simp del: list.set
      split: option.splits sum.splits pyobject.splits)

lemma eigsh_lanczos_state:
  "snd (eigsh_lanczos ext A args initial_state shape dtype num_krylov_vecs numeig tol delta ndiag
          reorthogonalize s) =
   (if passes (Eigsh_lanczos A args initial_state shape dtype num_krylov_vecs numeig tol delta
                 ndiag reorthogonalize)
    then registered A (Partial A) ''eigsh_lanczos'' (generate_jitted_eigsh_lanczos ext) s
    else s)"
  by (auto simp: eigsh_lanczos_flat initial_state_ok_def randn_def
      split: option.splits sum.splits pyobject.splits)

lemma gmres_state:
  "snd (gmres ext A_mv b A_args A_kwargs x0 tol atol num_krylov_vectors maxiter M s) =
   (if passes (Gmres A_mv b A_args A_kwargs x0 tol atol num_krylov_vectors maxiter M)
    then registered A_mv (Partial A_mv) ''gmres_f'' (gmres_wrapper ext) s
    else s)"
  by (auto simp: gmres_flat gmres_values_ok_def Let_def split: option.splits)



lemma gmres_own_error:
  "\<not> passes (Gmres A_mv b A_args A_kwargs x0 tol atol num_krylov_vectors maxiter M) \<Longrightarrow>
   \<exists>c. fst (gmres ext A_mv b A_args A_kwargs x0 tol atol num_krylov_vectors maxiter M s) \<in>
         {Inl (ValueError c), Inl (NotImplementedError c)}"
  by (auto simp: gmres_flat gmres_values_ok_def Let_def split: option.splits)






lemma gmres_result:
  "passes (Gmres A_mv b A_args A_kwargs x0 tol atol num_krylov_vectors maxiter M) \<Longrightarrow>
   fst (gmres ext A_mv b A_args A_kwargs x0 tol atol num_krylov_vectors maxiter M s) =
     (case call_gmres ext
             (case cached_functions s ''gmres_f'' of
                None \<Rightarrow> gmres_wrapper ext | Some f \<Rightarrow> f)
             (case cached_matvecs s (dict_key A_mv) of None \<Rightarrow> Partial A_mv | Some m \<Rightarrow> m)
             (case A_args of None \<Rightarrow> [] | Some a \<Rightarrow> a) b
             (case x0 of None \<Rightarrow> zeros ext (shape_of b) (dtype_of b) | Some x \<Rightarrow> x)
             tol (case atol of None \<Rightarrow> tol | Some a \<Rightarrow> a)
             (case num_krylov_vectors of None \<Rightarrow> size_of b | Some n \<Rightarrow> n) maxiter of
        Inl x \<Rightarrow> Inl (Propagated x)
      | Inr (x, u, n_iter, converged) \<Rightarrow> Inr (x, if converged then 0 else n_iter))"
  by (cases x0; cases atol; cases num_krylov_vectors)
     (auto simp: gmres_flat gmres_values_ok_def Let_def)





text \<open>The same for a call of any entry point.\<close>

lemma call_fst_snd:
  "call ext (Eigs A args initial_state shape dtype num_krylov_vecs numeig tol which maxiter) s =
     (map_sum id Eigenpairs
        (fst (eigs ext A args initial_state shape dtype num_krylov_vecs numeig tol which maxiter s)),
      snd (eigs ext A args initial_state shape dtype num_krylov_vecs numeig tol which maxiter s))"
  "call ext (Eigsh_lanczos A args initial_state shape dtype num_krylov_vecs numeig tol delta ndiag
       reorthogonalize) s =
     (map_sum id Eigenpairs
        (fst (eigsh_lanczos ext A args initial_state shape dtype num_krylov_vecs numeig tol delta
                ndiag reorthogonalize s)),
      snd (eigsh_lanczos ext A args initial_state shape dtype num_krylov_vecs numeig tol delta
             ndiag reorthogonalize s))"
  "call ext (Gmres A_mv b A_args A_kwargs x0 tol atol num_krylov_vectors restarts M) s =
     (map_sum id (\<lambda>(x, info). Solution x info)
        (fst (gmres ext A_mv b A_args A_kwargs x0 tol atol num_krylov_vectors restarts M s)),
      snd (gmres ext A_mv b A_args A_kwargs x0 tol atol num_krylov_vectors restarts M s))"
  by (simp_all split: prod.splits sum.splits)

lemma call_state:
  "snd (call ext q s) =
   (if passes q then registered (operator q) (wrapped q) (algorithm q) (routine ext q) s else s)"
proof (cases q)
  case (Eigs A args initial_state shape dtype num_krylov_vecs numeig tol which maxiter)
  then show ?thesis
    by (simp only: call_fst_snd snd_conv eigs_state operator.simps wrapped.simps
        algorithm.simps routine.simps)
next
  case (Eigsh_lanczos A args initial_state shape dtype num_krylov_vecs numeig tol delta ndiag
    reorthogonalize)
  then show ?thesis
    by (simp only: call_fst_snd snd_conv eigsh_lanczos_state operator.simps wrapped.simps
        algorithm.simps routine.simps)
next
  case (Gmres A_mv b A_args A_kwargs x0 tol atol num_krylov_vectors maxiter M)
  then show ?thesis
    by (simp only: call_fst_snd snd_conv gmres_state operator.simps wrapped.simps
        algorithm.simps routine.simps)
qed




lemma call_cases:
  "snd (call ext q s) = s \<or>
   snd (call ext q s) = registered (operator q) (wrapped q) (algorithm q) (routine ext q) s"
  by (simp add: call_state)

lemma registered_matvecs_le: "cached_matvecs s \<subseteq>\<^sub>m cached_matvecs (registered A w name c s)"
  by (auto simp: registered_def map_le_def split: option.splits)

lemma registered_functions_le:
  "cached_functions s \<subseteq>\<^sub>m cached_functions (registered A w name c s)"
  by (auto simp: registered_def map_le_def split: option.splits)







lemma call_matvecs_le: "cached_matvecs s \<subseteq>\<^sub>m cached_matvecs (snd (call ext q s))"
  using call_cases [of ext q s] by (auto intro: registered_matvecs_le)

lemma call_functions_le: "cached_functions s \<subseteq>\<^sub>m cached_functions (snd (call ext q s))"
  using call_cases [of ext q s] by (auto intro: registered_functions_le)

lemma process_matvecs_le: "cached_matvecs s \<subseteq>\<^sub>m cached_matvecs (process ext qs s)"
proof (induction qs arbitrary: s)
  case Nil
  show ?case by simp
next
  case (Cons q qs)
  have "cached_matvecs s \<subseteq>\<^sub>m cached_matvecs (snd (call ext q s))"
    by (rule call_matvecs_le)
  also have "\<dots> \<subseteq>\<^sub>m cached_matvecs (process ext qs (snd (call ext q s)))"
    by (rule Cons.IH)
  finally show ?case by simp
qed

lemma process_functions_le: "cached_functions s \<subseteq>\<^sub>m cached_functions (process ext qs s)"
proof (induction qs arbitrary: s)
  case Nil
  show ?case by simp
next
  case (Cons q qs)
  have "cached_functions s \<subseteq>\<^sub>m cached_functions (snd (call ext q s))"
    by (rule call_functions_le)
  also have "\<dots> \<subseteq>\<^sub>m cached_functions (process ext qs (snd (call ext q s)))"
    by (rule Cons.IH)
  finally show ?case by simp
qed

section \<open>The claims\<close>






text \<open>
  C2. A call of \<open>gmres\<close> that passes every check, with neither \<open>M\<close> nor \<open>A_kwargs\<close> given,
  hands over to the routine, and when the routine returns, \<open>gmres\<close> returns the routine's
  solution as it is, with status 0 when the routine reports convergence and the restart
  count the routine reports otherwise; no bound on \<open>maxiter\<close> enters. With a routine as the
  spec describes it, whose restart count is nonzero when it did not converge, the status
  is 0 exactly when the routine converged, and it is the nonzero restart count otherwise.
  An error of the routine is propagated, and \<open>gmres\<close> returns only in these cases.
\<close>

theorem gmres_status_code:
  "(gmres_values_ok b x0 tol atol num_krylov_vectors \<and> M = None \<and> A_kwargs = None \<and>
    call_gmres ext
      (case cached_functions s ''gmres_f'' of None \<Rightarrow> gmres_wrapper ext | Some f \<Rightarrow> f)
      (case cached_matvecs s (dict_key A_mv) of None \<Rightarrow> Partial A_mv | Some m \<Rightarrow> m)
      (case A_args of None \<Rightarrow> [] | Some a \<Rightarrow> a) b
      (case x0 of None \<Rightarrow> zeros ext (shape_of b) (dtype_of b) | Some x \<Rightarrow> x)
      tol (case atol of None \<Rightarrow> tol | Some a \<Rightarrow> a)
      (case num_krylov_vectors of None \<Rightarrow> size_of b | Some n \<Rightarrow> n) maxiter =
      Inr (x, u, n_iter, converged) \<longrightarrow>
    fst (gmres ext A_mv b A_args A_kwargs x0 tol atol num_krylov_vectors maxiter M s) =
      Inr (x, if converged then 0 else n_iter) \<and>
    (counts_restarts (x, u, n_iter, converged) \<longrightarrow>
       (\<exists>status.
          fst (gmres ext A_mv b A_args A_kwargs x0 tol atol num_krylov_vectors maxiter M s) =
            Inr (x, status) \<and>
          (status = 0 \<longleftrightarrow> converged) \<and> (\<not> converged \<longrightarrow> status = n_iter \<and> status \<noteq> 0)))) \<and>
   (gmres_values_ok b x0 tol atol num_krylov_vectors \<and> M = None \<and> A_kwargs = None \<and>
    call_gmres ext
      (case cached_functions s ''gmres_f'' of None \<Rightarrow> gmres_wrapper ext | Some f \<Rightarrow> f)
      (case cached_matvecs s (dict_key A_mv) of None \<Rightarrow> Partial A_mv | Some m \<Rightarrow> m)
      (case A_args of None \<Rightarrow> [] | Some a \<Rightarrow> a) b
      (case x0 of None \<Rightarrow> zeros ext (shape_of b) (dtype_of b) | Some x \<Rightarrow> x)
      tol (case atol of None \<Rightarrow> tol | Some a \<Rightarrow> a)
      (case num_krylov_vectors of None \<Rightarrow> size_of b | Some n \<Rightarrow> n) maxiter = Inl raised \<longrightarrow>
    fst (gmres ext A_mv b A_args A_kwargs x0 tol atol num_krylov_vectors maxiter M s) =
      Inl (Propagated raised)) \<and>
   (\<not> (gmres_values_ok b x0 tol atol num_krylov_vectors \<and> M = None \<and> A_kwargs = None) \<longrightarrow>
    (\<exists>e. gmres ext A_mv b A_args A_kwargs x0 tol atol num_krylov_vectors maxiter M s =
           (Inl e, s)))"
proof -
  let ?q = "Gmres A_mv b A_args A_kwargs x0 tol atol num_krylov_vectors maxiter M"
  let ?g = "gmres ext A_mv b A_args A_kwargs x0 tol atol num_krylov_vectors maxiter M s"
  have valid: "passes ?q \<longleftrightarrow>
      gmres_values_ok b x0 tol atol num_krylov_vectors \<and> M = None \<and> A_kwargs = None"
    by simp
  have returned: "fst ?g = Inr (x, if converged then 0 else n_iter) \<and>
      (counts_restarts (x, u, n_iter, converged) \<longrightarrow>
         (\<exists>status. fst ?g = Inr (x, status) \<and> (status = 0 \<longleftrightarrow> converged) \<and>
            (\<not> converged \<longrightarrow> status = n_iter \<and> status \<noteq> 0)))"
    if "passes ?q" and "call_gmres ext
      (case cached_functions s ''gmres_f'' of None \<Rightarrow> gmres_wrapper ext | Some f \<Rightarrow> f)
      (case cached_matvecs s (dict_key A_mv) of None \<Rightarrow> Partial A_mv | Some m \<Rightarrow> m)
      (case A_args of None \<Rightarrow> [] | Some a \<Rightarrow> a) b
      (case x0 of None \<Rightarrow> zeros ext (shape_of b) (dtype_of b) | Some x \<Rightarrow> x)
      tol (case atol of None \<Rightarrow> tol | Some a \<Rightarrow> a)
      (case num_krylov_vectors of None \<Rightarrow> size_of b | Some n \<Rightarrow> n) maxiter =
      Inr (x, u, n_iter, converged)"
    unfolding gmres_result [OF that(1)] that(2) by (simp add: counts_restarts_def)
  have propagated: "fst ?g = Inl (Propagated raised)"
    if "passes ?q" and "call_gmres ext
      (case cached_functions s ''gmres_f'' of None \<Rightarrow> gmres_wrapper ext | Some f \<Rightarrow> f)
      (case cached_matvecs s (dict_key A_mv) of None \<Rightarrow> Partial A_mv | Some m \<Rightarrow> m)
      (case A_args of None \<Rightarrow> [] | Some a \<Rightarrow> a) b
      (case x0 of None \<Rightarrow> zeros ext (shape_of b) (dtype_of b) | Some x \<Rightarrow> x)
      tol (case atol of None \<Rightarrow> tol | Some a \<Rightarrow> a)
      (case num_krylov_vectors of None \<Rightarrow> size_of b | Some n \<Rightarrow> n) maxiter = Inl raised"
    unfolding gmres_result [OF that(1)] that(2) by simp
  have rejected: "\<exists>e. ?g = (Inl e, s)" if no: "\<not> passes ?q"
  proof -
    from gmres_own_error [OF no, of ext s] obtain e where "fst ?g = Inl e"
      by auto
    moreover have "snd ?g = s"
      using no by (simp only: gmres_state if_False)
    ultimately have "?g = (Inl e, s)"
      by (simp add: prod_eq_iff)
    then show ?thesis ..
  qed
  from returned propagated rejected show ?thesis
    unfolding valid by blast
qed

theorem gmres_status_code_witness:
  "counts_restarts (zeros stub [4] Float64, (), 1, False) \<and>
   fst (gmres stub (Function 1) (vec 4) None None None (1 / 10 ^ 5) None None (Some 3) None
          empty_caches) = Inr (zeros stub [4] Float64, 1) \<and>
   fst (gmres stub (Function 1) (vec 4) None None None 1 None None (Some 3) None
          empty_caches) = Inr (zeros stub [4] Float64, 0)"
  using gmres_status_code [of "vec 4" None "1 / 10 ^ 5" None None None None stub empty_caches
      "Function 1" None "Some 3" "zeros stub [4] Float64" "()" 1 False]
    gmres_status_code [of "vec 4" None 1 None None None None stub empty_caches
      "Function 1" None "Some 3" "zeros stub [4] Float64" "()" 1 True]
  by (simp add: gmres_values_ok_def counts_restarts_def stub_def empty_caches_def)

text \<open>
  C9. No call removes or replaces an entry of \<^verbatim>\<open>_CACHED_MATVECS\<close> or
  \<^verbatim>\<open>_CACHED_FUNCTIONS\<close>: each dictionary before a call is contained in the dictionary
  after it, a key whose value changed had no entry before and is the operator
  (the algorithm name) of the call, and the same containment holds across any sequence
  of calls.
\<close>

theorem cache_entries_persist:
  "cached_matvecs s \<subseteq>\<^sub>m cached_matvecs (snd (call ext q s)) \<and>
   cached_functions s \<subseteq>\<^sub>m cached_functions (snd (call ext q s)) \<and>
   (\<forall>k. cached_matvecs (snd (call ext q s)) k \<noteq> cached_matvecs s k \<longrightarrow>
        cached_matvecs s k = None \<and> k = dict_key (operator q)) \<and>
   (\<forall>n. cached_functions (snd (call ext q s)) n \<noteq> cached_functions s n \<longrightarrow>
        cached_functions s n = None \<and> n = algorithm q) \<and>
   cached_matvecs s \<subseteq>\<^sub>m cached_matvecs (process ext qs s) \<and>
   cached_functions s \<subseteq>\<^sub>m cached_functions (process ext qs s)"
proof -
  have "\<forall>k. cached_matvecs (snd (call ext q s)) k \<noteq> cached_matvecs s k \<longrightarrow>
        cached_matvecs s k = None \<and> k = dict_key (operator q)"
    using call_cases [of ext q s] by (auto simp: registered_def split: option.splits if_splits)
  moreover have "\<forall>n. cached_functions (snd (call ext q s)) n \<noteq> cached_functions s n \<longrightarrow>
        cached_functions s n = None \<and> n = algorithm q"
    using call_cases [of ext q s] by (auto simp: registered_def split: option.splits if_splits)
  ultimately show ?thesis
    using call_matvecs_le call_functions_le process_matvecs_le process_functions_le by blast
qed

theorem cache_entries_persist_witness:
  "cached_matvecs
     (process stub
        [eigs_call (Function 2) ''LR'' (Jnp_ndarray (vec 4)), eigs_call (Function 1) ''SM'' (Jnp_ndarray (vec 4)),
         eigs_call (Function 1) ''LR'' (Jnp_ndarray (vec 4))] warm) (Function_key 1) =
     Some (Partial (Function 1)) \<and>
   cached_functions
     (process stub
        [eigs_call (Function 2) ''LR'' (Jnp_ndarray (vec 4)), eigs_call (Function 1) ''SM'' (Jnp_ndarray (vec 4)),
         eigs_call (Function 1) ''LR'' (Jnp_ndarray (vec 4))] warm) ''gmres_f'' = Some ''gmres''"
  using cache_entries_persist [of warm stub "eigs_call (Function 1) ''LR'' (Jnp_ndarray (vec 4))"
      "[eigs_call (Function 2) ''LR'' (Jnp_ndarray (vec 4)), eigs_call (Function 1) ''SM'' (Jnp_ndarray (vec 4)),
        eigs_call (Function 1) ''LR'' (Jnp_ndarray (vec 4))]"]
  by (simp add: map_le_def warm_def)

text \<open>
  C3, as amended. \<open>eigs\<close> raises its unsupported-\<open>which\<close> error, with the state
  untouched, exactly for the four values \<open>SI\<close>, \<open>LI\<close>, \<open>SM\<close>, \<open>SR\<close>. Every other value,
  \<open>LR\<close> and \<open>LM\<close> among them, passes this check.
\<close>

theorem eigs_which_check:
  "(which \<in> set [''SI'', ''LI'', ''SM'', ''SR''] \<longrightarrow>
      eigs ext A args initial_state shape dtype num_krylov_vecs numeig tol which maxiter s =
        (Inl (ValueError Which_not_supported), s)) \<and>
   (which \<notin> set [''SI'', ''LI'', ''SM'', ''SR''] \<longrightarrow>
      fst (eigs ext A args initial_state shape dtype num_krylov_vecs numeig tol which maxiter s) \<noteq>
        Inl (ValueError Which_not_supported))"
  by (auto simp: eigs_flat simp del: list.set split: option.splits sum.splits pyobject.splits)

theorem eigs_which_check_witness:
  "eigs stub (Function 1) None (Some (Jnp_ndarray (vec 4))) None None 50 6 (1 / 10 ^ 8) ''SM'' 20 empty_caches =
     (Inl (ValueError Which_not_supported), empty_caches) \<and>
   fst (eigs stub (Function 1) None (Some (Jnp_ndarray (vec 4))) None None 50 6 (1 / 10 ^ 8) ''LM'' 20 empty_caches) \<noteq>
     Inl (ValueError Which_not_supported)"
  using eigs_which_check [of "''SM''" stub "Function 1" None "Some (Jnp_ndarray (vec 4))" None None 50 6
      "1 / 10 ^ 8" 20 empty_caches]
    eigs_which_check [of "''LM''" stub "Function 1" None "Some (Jnp_ndarray (vec 4))" None None 50 6
      "1 / 10 ^ 8" 20 empty_caches]
  by simp

text \<open>
  C3 as stated fails: \<open>SA\<close> is neither \<open>LR\<close> nor \<open>LM\<close>, and \<open>eigs\<close> raises nothing; it
  registers the operator and invokes the routine.
\<close>

theorem eigs_which_unlisted_passes:
  "''SA'' \<notin> set [''LR'', ''LM''] \<and>
   eigs stub (Function 1) None (Some (Jnp_ndarray (vec 4))) None None 50 6 (1 / 10 ^ 8) ''SA'' 20 empty_caches =
     (Inr ''arnoldi'',
      \<lparr>cached_matvecs = [Function_key 1 \<mapsto> Partial_jit (Function 1)],
       cached_functions = [''imp_arnoldi'' \<mapsto> ''arnoldi''],
       events =
         [Wrap (Function 1), Build ''imp_arnoldi'',
          Run ''imp_arnoldi'' (Partial_jit (Function 1))]\<rparr>)"
  by (simp add: eigs_flat registered_def stub_def empty_caches_def)

text \<open>
  C5. With \<open>numeig > num_krylov_vecs\<close>, \<open>eigs\<close> and \<open>eigsh_lanczos\<close> raise a ValueError
  and leave the state untouched (in \<open>eigs\<close> the check of \<open>which\<close> comes first and raises a
  ValueError of its own); with \<open>num_krylov_vecs \<ge> numeig\<close> neither raises the error of
  this check.
\<close>

theorem numeig_exceeding_krylov_rejected:
  "(num_krylov_vecs < numeig \<longrightarrow>
      eigs ext A args initial_state shape dtype num_krylov_vecs numeig tol which maxiter s =
        (Inl (ValueError (if which \<in> set [''SI'', ''LI'', ''SM'', ''SR'']
                          then Which_not_supported else Numeig_exceeds_krylov)), s) \<and>
      eigsh_lanczos ext A' args' initial_state' shape' dtype' num_krylov_vecs numeig tol' delta
          ndiag reorthogonalize s' =
        (Inl (ValueError Numeig_exceeds_krylov), s')) \<and>
   (numeig \<le> num_krylov_vecs \<longrightarrow>
      fst (eigs ext A args initial_state shape dtype num_krylov_vecs numeig tol which maxiter s) \<noteq>
        Inl (ValueError Numeig_exceeds_krylov) \<and>
      fst (eigsh_lanczos ext A' args' initial_state' shape' dtype' num_krylov_vecs numeig tol'
             delta ndiag reorthogonalize s') \<noteq>
        Inl (ValueError Numeig_exceeds_krylov))"
proof (intro conjI impI)
  assume "num_krylov_vecs < numeig"
  then show "eigs ext A args initial_state shape dtype num_krylov_vecs numeig tol which maxiter s =
        (Inl (ValueError (if which \<in> set [''SI'', ''LI'', ''SM'', ''SR'']
                          then Which_not_supported else Numeig_exceeds_krylov)), s)"
    by (simp add: eigs_flat del: list.set)
next
  assume "num_krylov_vecs < numeig"
  then show "eigsh_lanczos ext A' args' initial_state' shape' dtype' num_krylov_vecs numeig tol' delta
          ndiag reorthogonalize s' = (Inl (ValueError Numeig_exceeds_krylov), s')"
    by (simp add: eigsh_lanczos_flat)
next
  assume "numeig \<le> num_krylov_vecs"
  then show "fst (eigs ext A args initial_state shape dtype num_krylov_vecs numeig tol which maxiter s) \<noteq>
        Inl (ValueError Numeig_exceeds_krylov)"
    by (auto simp: eigs_flat simp del: list.set split: option.splits sum.splits pyobject.splits)
next
  assume "numeig \<le> num_krylov_vecs"
  then show "fst (eigsh_lanczos ext A' args' initial_state' shape' dtype' num_krylov_vecs numeig tol'
             delta ndiag reorthogonalize s') \<noteq> Inl (ValueError Numeig_exceeds_krylov)"
    by (auto simp: eigsh_lanczos_flat split: option.splits sum.splits pyobject.splits)
qed

theorem numeig_exceeding_krylov_rejected_witness:
  "eigs stub (Function 1) None (Some (Jnp_ndarray (vec 4))) None None 5 6 (1 / 10 ^ 8) ''LR'' 20 empty_caches =
     (Inl (ValueError Numeig_exceeds_krylov), empty_caches) \<and>
   eigsh_lanczos stub (Function 1) None (Some (Jnp_ndarray (vec 4))) None None 5 6 (1 / 10 ^ 8) (1 / 10 ^ 8) 10
       (Some True) empty_caches =
     (Inl (ValueError Numeig_exceeds_krylov), empty_caches) \<and>
   fst (eigs stub (Function 1) None (Some (Jnp_ndarray (vec 4))) None None 6 6 (1 / 10 ^ 8) ''LR'' 20 empty_caches) \<noteq>
     Inl (ValueError Numeig_exceeds_krylov) \<and>
   fst (eigsh_lanczos stub (Function 1) None (Some (Jnp_ndarray (vec 4))) None None 6 6 (1 / 10 ^ 8) (1 / 10 ^ 8) 10
       (Some True) empty_caches) \<noteq>
     Inl (ValueError Numeig_exceeds_krylov)"
  using numeig_exceeding_krylov_rejected [of 5 6 stub "Function 1" None "Some (Jnp_ndarray (vec 4))" None None
      "1 / 10 ^ 8" "''LR''" 20 empty_caches "Function 1" None "Some (Jnp_ndarray (vec 4))" None None
      "1 / 10 ^ 8" "1 / 10 ^ 8" 10 "Some True" empty_caches]
    numeig_exceeding_krylov_rejected [of 6 6 stub "Function 1" None "Some (Jnp_ndarray (vec 4))" None None
      "1 / 10 ^ 8" "''LR''" 20 empty_caches "Function 1" None "Some (Jnp_ndarray (vec 4))" None None
      "1 / 10 ^ 8" "1 / 10 ^ 8" 10 "Some True" empty_caches]
  by simp

text \<open>
  C6. \<open>eigsh_lanczos\<close> raises the error of its reorthogonalization check exactly when
  \<open>numeig > 1\<close> and \<open>reorthogonalize\<close> is false (\<^verbatim>\<open>False\<close>, or \<^verbatim>\<open>None\<close>, which Python
  takes for false), the check before it having passed; with \<open>numeig > 1\<close> and
  \<open>reorthogonalize\<close> false the call raises a ValueError in any case; with \<open>numeig \<le> 1\<close> or
  \<open>reorthogonalize = True\<close> the check passes.
\<close>

theorem reorthogonalize_required_iff:
  "(fst (eigsh_lanczos ext A args initial_state shape dtype num_krylov_vecs numeig tol delta ndiag
           reorthogonalize s) = Inl (ValueError Reorthogonalize_required)
      \<longleftrightarrow> numeig \<le> num_krylov_vecs \<and> 1 < numeig \<and> \<not> truthy reorthogonalize) \<and>
   (1 < numeig \<and> \<not> truthy reorthogonalize \<longrightarrow>
      (\<exists>c. eigsh_lanczos ext A args initial_state shape dtype num_krylov_vecs numeig tol delta
              ndiag reorthogonalize s = (Inl (ValueError c), s))) \<and>
   (numeig \<le> 1 \<or> reorthogonalize = Some True \<longrightarrow>
      fst (eigsh_lanczos ext A args initial_state shape dtype num_krylov_vecs numeig tol delta
             ndiag reorthogonalize s) \<noteq> Inl (ValueError Reorthogonalize_required))"
proof -
  have iff: "fst (eigsh_lanczos ext A args initial_state shape dtype num_krylov_vecs numeig tol
        delta ndiag reorthogonalize s) = Inl (ValueError Reorthogonalize_required)
      \<longleftrightarrow> numeig \<le> num_krylov_vecs \<and> 1 < numeig \<and> \<not> truthy reorthogonalize"
    by (auto simp: eigsh_lanczos_flat split: option.splits sum.splits pyobject.splits)
  have raised: "1 < numeig \<and> \<not> truthy reorthogonalize \<longrightarrow>
      (\<exists>c. eigsh_lanczos ext A args initial_state shape dtype num_krylov_vecs numeig tol delta
              ndiag reorthogonalize s = (Inl (ValueError c), s))"
    by (simp add: eigsh_lanczos_flat)
  from iff have "numeig \<le> 1 \<or> reorthogonalize = Some True \<longrightarrow>
      fst (eigsh_lanczos ext A args initial_state shape dtype num_krylov_vecs numeig tol delta
             ndiag reorthogonalize s) \<noteq> Inl (ValueError Reorthogonalize_required)"
    by auto
  with iff raised show ?thesis by blast
qed

theorem reorthogonalize_required_iff_witness:
  "fst (eigsh_lanczos stub (Function 1) None (Some (Jnp_ndarray (vec 4))) None None 20 2 (1 / 10 ^ 8)
          (1 / 10 ^ 8) 10 (Some False) empty_caches) = Inl (ValueError Reorthogonalize_required) \<and>
   fst (eigsh_lanczos stub (Function 1) None (Some (Jnp_ndarray (vec 4))) None None 20 2 (1 / 10 ^ 8)
          (1 / 10 ^ 8) 10 (Some True) empty_caches) \<noteq> Inl (ValueError Reorthogonalize_required) \<and>
   fst (eigsh_lanczos stub (Function 1) None (Some (Jnp_ndarray (vec 4))) None None 20 1 (1 / 10 ^ 8)
          (1 / 10 ^ 8) 10 (Some False) empty_caches) \<noteq> Inl (ValueError Reorthogonalize_required)"
  using reorthogonalize_required_iff [of stub "Function 1" None "Some (Jnp_ndarray (vec 4))" None None 20 2
      "1 / 10 ^ 8" "1 / 10 ^ 8" 10 "Some False" empty_caches]
    reorthogonalize_required_iff [of stub "Function 1" None "Some (Jnp_ndarray (vec 4))" None None 20 2
      "1 / 10 ^ 8" "1 / 10 ^ 8" 10 "Some True" empty_caches]
    reorthogonalize_required_iff [of stub "Function 1" None "Some (Jnp_ndarray (vec 4))" None None 20 1
      "1 / 10 ^ 8" "1 / 10 ^ 8" 10 "Some False" empty_caches]
  by simp

text \<open>
  C7. Without \<open>num_krylov_vectors\<close>, \<open>gmres\<close> behaves as with \<open>num_krylov_vectors = b.size\<close>.
  With a value \<open>n\<close> that is \<open>\<le> 0\<close> or \<open>> b.size\<close> it raises a ValueError and leaves the
  state untouched; the error of the range check is raised exactly when \<open>n\<close> is out of
  range and the checks on \<open>x0\<close> before it have passed; with \<open>0 < n \<le> b.size\<close> the range
  check passes.
\<close>

theorem gmres_num_krylov_vectors_range:
  "gmres ext A_mv b A_args A_kwargs x0 tol atol None maxiter M s =
     gmres ext A_mv b A_args A_kwargs x0 tol atol (Some (size_of b)) maxiter M s \<and>
   (n \<le> 0 \<or> size_of b < n \<longrightarrow>
      (\<exists>c. gmres ext A_mv b A_args A_kwargs x0 tol atol (Some n) maxiter M s =
             (Inl (ValueError c), s))) \<and>
   (fst (gmres ext A_mv b A_args A_kwargs x0 tol atol (Some n) maxiter M s) =
      Inl (ValueError Krylov_out_of_range)
    \<longleftrightarrow> (case x0 of None \<Rightarrow> True | Some x \<Rightarrow> shape_of x = shape_of b \<and> dtype_of x = dtype_of b) \<and>
        (n \<le> 0 \<or> size_of b < n)) \<and>
   (0 < n \<and> n \<le> size_of b \<longrightarrow>
      fst (gmres ext A_mv b A_args A_kwargs x0 tol atol (Some n) maxiter M s) \<noteq>
        Inl (ValueError Krylov_out_of_range))"
proof -
  have default: "gmres ext A_mv b A_args A_kwargs x0 tol atol None maxiter M s =
      gmres ext A_mv b A_args A_kwargs x0 tol atol (Some (size_of b)) maxiter M s"
    by (simp add: gmres_flat)
  have raised: "n \<le> 0 \<or> size_of b < n \<longrightarrow>
      (\<exists>c. gmres ext A_mv b A_args A_kwargs x0 tol atol (Some n) maxiter M s =
             (Inl (ValueError c), s))"
    by (auto simp: gmres_flat)
  have iff: "fst (gmres ext A_mv b A_args A_kwargs x0 tol atol (Some n) maxiter M s) =
      Inl (ValueError Krylov_out_of_range)
    \<longleftrightarrow> (case x0 of None \<Rightarrow> True | Some x \<Rightarrow> shape_of x = shape_of b \<and> dtype_of x = dtype_of b) \<and>
        (n \<le> 0 \<or> size_of b < n)"
    by (auto simp: gmres_flat split: option.splits)
  from iff have "0 < n \<and> n \<le> size_of b \<longrightarrow>
      fst (gmres ext A_mv b A_args A_kwargs x0 tol atol (Some n) maxiter M s) \<noteq>
        Inl (ValueError Krylov_out_of_range)"
    by auto
  with default raised iff show ?thesis by blast
qed

theorem gmres_num_krylov_vectors_range_witness:
  "gmres stub (Function 1) (vec 4) None None None (1 / 10 ^ 5) None (Some 5) (Some 1) None empty_caches =
     (Inl (ValueError Krylov_out_of_range), empty_caches) \<and>
   gmres stub (Function 1) (vec 4) None None None (1 / 10 ^ 5) None (Some 0) (Some 1) None empty_caches =
     (Inl (ValueError Krylov_out_of_range), empty_caches) \<and>
   fst (gmres stub (Function 1) (vec 4) None None None (1 / 10 ^ 5) None (Some 4) (Some 1) None empty_caches) \<noteq>
     Inl (ValueError Krylov_out_of_range)"
  using gmres_num_krylov_vectors_range [of stub "Function 1" "vec 4" None None None "1 / 10 ^ 5" None "Some 1"
      None empty_caches 5]
    gmres_num_krylov_vectors_range [of stub "Function 1" "vec 4" None None None "1 / 10 ^ 5" None "Some 1"
      None empty_caches 0]
    gmres_num_krylov_vectors_range [of stub "Function 1" "vec 4" None None None "1 / 10 ^ 5" None "Some 1"
      None empty_caches 4]
  by (auto simp: gmres_flat)

text \<open>
  C8, as amended. When the checks on \<open>x0\<close>, \<open>num_krylov_vectors\<close>, \<open>tol\<close> and \<open>atol\<close> pass
  and \<open>M\<close> or \<open>A_kwargs\<close> is given, \<open>gmres\<close> raises NotImplementedError and leaves the
  state untouched; when one of those checks fails it raises ValueError, whatever \<open>M\<close> and
  \<open>A_kwargs\<close> are. With neither given it never raises NotImplementedError. The two error
  classes are distinct.
\<close>

theorem gmres_unsupported_features:
  "(gmres_values_ok b x0 tol atol num_krylov_vectors \<and> (M \<noteq> None \<or> A_kwargs \<noteq> None) \<longrightarrow>
      gmres ext A_mv b A_args A_kwargs x0 tol atol num_krylov_vectors maxiter M s =
        (Inl (NotImplementedError
               (if M \<noteq> None then M_not_supported else A_kwargs_not_supported)), s)) \<and>
   (\<not> gmres_values_ok b x0 tol atol num_krylov_vectors \<longrightarrow>
      (\<exists>c. gmres ext A_mv b A_args A_kwargs x0 tol atol num_krylov_vectors maxiter M s =
             (Inl (ValueError c), s))) \<and>
   (M = None \<and> A_kwargs = None \<longrightarrow>
      (\<forall>c. fst (gmres ext A_mv b A_args A_kwargs x0 tol atol num_krylov_vectors maxiter M s) \<noteq>
             Inl (NotImplementedError c))) \<and>
   (\<forall>c c'. NotImplementedError c \<noteq> ValueError c')"
proof (intro conjI impI)
  assume "gmres_values_ok b x0 tol atol num_krylov_vectors \<and> (M \<noteq> None \<or> A_kwargs \<noteq> None)"
  then show "gmres ext A_mv b A_args A_kwargs x0 tol atol num_krylov_vectors maxiter M s =
        (Inl (NotImplementedError
               (if M \<noteq> None then M_not_supported else A_kwargs_not_supported)), s)"
    by (auto simp: gmres_flat gmres_values_ok_def Let_def split: option.splits)
next
  assume "\<not> gmres_values_ok b x0 tol atol num_krylov_vectors"
  then show "\<exists>c. gmres ext A_mv b A_args A_kwargs x0 tol atol num_krylov_vectors maxiter M s =
             (Inl (ValueError c), s)"
    by (auto simp: gmres_flat gmres_values_ok_def Let_def split: option.splits)
next
  assume "M = None \<and> A_kwargs = None"
  then show "\<forall>c. fst (gmres ext A_mv b A_args A_kwargs x0 tol atol num_krylov_vectors maxiter M s) \<noteq>
             Inl (NotImplementedError c)"
    by (simp add: gmres_flat)
next
  show "\<forall>c c'. NotImplementedError c \<noteq> ValueError c'"
    by simp
qed

theorem gmres_unsupported_features_witness:
  "gmres stub (Function 1) (vec 4) None None None (1 / 10 ^ 5) None None (Some 1) (Some (Function 2)) empty_caches =
     (Inl (NotImplementedError M_not_supported), empty_caches) \<and>
   gmres stub (Function 1) (vec 4) None (Some [''axis'' \<mapsto> Other]) None (1 / 10 ^ 5) None None (Some 1) None
       empty_caches =
     (Inl (NotImplementedError A_kwargs_not_supported), empty_caches) \<and>
   fst (gmres stub (Function 1) (vec 4) None None None (1 / 10 ^ 5) None None (Some 1) None empty_caches) \<noteq>
     Inl (NotImplementedError M_not_supported)"
  using gmres_unsupported_features [of "vec 4" None "1 / 10 ^ 5" None None "Some (Function 2)" None stub "Function 1" None
      "Some 1" empty_caches]
    gmres_unsupported_features [of "vec 4" None "1 / 10 ^ 5" None None None
      "Some [''axis'' \<mapsto> Other]" stub "Function 1" None "Some 1" empty_caches]
    gmres_unsupported_features [of "vec 4" None "1 / 10 ^ 5" None None None None stub "Function 1" None
      "Some 1" empty_caches]
  by (simp add: gmres_values_ok_def)

text \<open>
  C8 as stated fails: with a preconditioner given and a negative \<open>tol\<close>, \<open>gmres\<close> raises
  ValueError, not NotImplementedError.
\<close>

theorem gmres_preconditioner_with_negative_tol:
  "gmres stub (Function 1) (vec 4) None None None (- 1) None None (Some 1) (Some (Function 2)) empty_caches =
     (Inl (ValueError Tol_negative), empty_caches)"
  by (simp add: gmres_flat)

text \<open>
  C10, as amended. When the checks on \<open>x0\<close>, \<open>num_krylov_vectors\<close>, \<open>tol\<close> and \<open>atol\<close>
  pass, \<open>gmres\<close> raises NotImplementedError for every \<open>A_kwargs\<close> other than \<^verbatim>\<open>None\<close>,
  the empty dictionary included, and leaves the state untouched. The error of the
  \<open>A_kwargs\<close> check is raised exactly when those checks pass, \<open>M\<close> is not given and
  \<open>A_kwargs\<close> is not \<^verbatim>\<open>None\<close>; so \<open>A_kwargs = None\<close> never raises it.
\<close>

theorem gmres_A_kwargs_rejected:
  "(gmres_values_ok b x0 tol atol num_krylov_vectors \<and> A_kwargs \<noteq> None \<longrightarrow>
      (\<exists>c. gmres ext A_mv b A_args A_kwargs x0 tol atol num_krylov_vectors maxiter M s =
             (Inl (NotImplementedError c), s))) \<and>
   (gmres_values_ok b x0 tol atol num_krylov_vectors \<longrightarrow>
      (\<exists>c. gmres ext A_mv b A_args (Some Map.empty) x0 tol atol num_krylov_vectors maxiter M s =
             (Inl (NotImplementedError c), s))) \<and>
   (fst (gmres ext A_mv b A_args A_kwargs x0 tol atol num_krylov_vectors maxiter M s) =
      Inl (NotImplementedError A_kwargs_not_supported)
    \<longleftrightarrow> gmres_values_ok b x0 tol atol num_krylov_vectors \<and> M = None \<and> A_kwargs \<noteq> None)"
proof (intro conjI impI)
  assume "gmres_values_ok b x0 tol atol num_krylov_vectors \<and> A_kwargs \<noteq> None"
  then show "\<exists>c. gmres ext A_mv b A_args A_kwargs x0 tol atol num_krylov_vectors maxiter M s =
             (Inl (NotImplementedError c), s)"
    by (auto simp: gmres_flat gmres_values_ok_def Let_def split: option.splits)
next
  assume "gmres_values_ok b x0 tol atol num_krylov_vectors"
  then show "\<exists>c. gmres ext A_mv b A_args (Some Map.empty) x0 tol atol num_krylov_vectors maxiter M s =
             (Inl (NotImplementedError c), s)"
    by (auto simp: gmres_flat gmres_values_ok_def Let_def split: option.splits)
next
  show "fst (gmres ext A_mv b A_args A_kwargs x0 tol atol num_krylov_vectors maxiter M s) =
      Inl (NotImplementedError A_kwargs_not_supported)
    \<longleftrightarrow> gmres_values_ok b x0 tol atol num_krylov_vectors \<and> M = None \<and> A_kwargs \<noteq> None"
    by (auto simp: gmres_flat gmres_values_ok_def Let_def split: option.splits)
qed

theorem gmres_A_kwargs_rejected_witness:
  "gmres stub (Function 1) (vec 4) None (Some Map.empty) None (1 / 10 ^ 5) None None (Some 1) None empty_caches =
     (Inl (NotImplementedError A_kwargs_not_supported), empty_caches) \<and>
   fst (gmres stub (Function 1) (vec 4) None None None (1 / 10 ^ 5) None None (Some 1) None empty_caches) \<noteq>
     Inl (NotImplementedError A_kwargs_not_supported)"
  using gmres_A_kwargs_rejected [of "vec 4" None "1 / 10 ^ 5" None None "Some Map.empty" stub "Function 1" None
      "Some 1" None empty_caches]
    gmres_A_kwargs_rejected [of "vec 4" None "1 / 10 ^ 5" None None None stub "Function 1" None
      "Some 1" None empty_caches]
  by (auto simp: gmres_values_ok_def gmres_flat)

text \<open>
  C10 as stated fails: with the empty dictionary for \<open>A_kwargs\<close> and
  \<open>num_krylov_vectors = 0\<close>, \<open>gmres\<close> raises ValueError, not NotImplementedError.
\<close>

theorem gmres_empty_kwargs_with_zero_krylov:
  "gmres stub (Function 1) (vec 4) None (Some Map.empty) None (1 / 10 ^ 5) None (Some 0) (Some 1) None
     empty_caches = (Inl (ValueError Krylov_out_of_range), empty_caches)"
  by (simp add: gmres_flat)

end
